theory Spec2Isabelle
  imports Main "HOL-Library.Word"
begin

section \<open>Shared values\<close>

type_synonym byte = "8 word"
type_synonym uint64 = "64 word"
type_synonym Hash = "256 word"

text \<open>
  \<open>eth.L1BlockRef\<close>: the reader compares \<open>Hash\<close> and \<open>ParentHash\<close> (32-byte arrays, here
  256-bit words) and copies the whole value.
\<close>

record L1BlockRef =
  Hash :: Hash
  Number :: uint64
  ParentHash :: Hash
  Time :: uint64

text \<open>
  Go errors as values. \<open>EOF\<close> is \<open>io.EOF\<close>. \<open>OriginMismatch next cur\<close> is the error
  \<open>AddOrigin\<close> formats from the next and the current origin. \<open>LibraryError msg\<close> is an
  error value handed back by a collaborator (fee oracle, zlib, rlp). \<open>NilPointerPanic\<close>
  is the run-time panic of a method call through a nil pointer.
\<close>

datatype error =
    EOF
  | OriginMismatch L1BlockRef L1BlockRef
  | LibraryError string
  | NilPointerPanic

section \<open>op-batcher: \<open>DynamicEthChannelConfig\<close>\<close>

text \<open>
  Modelled from the spec: the declaration of the \<open>ChannelConfig\<close> struct is not among the
  sources. The fields are the ones the spec lists (maximum bytes per frame, target number
  of frames, whether a channel may span several transactions), under the names the source
  uses. \<open>MaxFrameSize\<close> is a \<open>uint64\<close>: the source multiplies \<open>MaxFrameSize + 1\<close> with the
  \<open>uint64\<close> constant \<open>params.TxDataNonZeroGasEIP2028\<close> and converts the result to
  \<open>int64\<close>. \<open>TargetNumFrames\<close> is a Go \<open>int\<close>, 64 bits wide and read as two's complement
  (\<open>sint\<close>); the source converts it with \<open>int64(...)\<close>.
\<close>

record ChannelConfig =
  MaxFrameSize :: uint64
  TargetNumFrames :: "64 word"
  MultiFrameTxs :: bool

text \<open>
  \<open>params.TxDataNonZeroGasEIP2028\<close> and \<open>params.TxGas\<close> are the \<open>uint64\<close> constants of
  go-ethereum: 16 gas for a non-zero byte of transaction data, 21000 gas for a transaction.
\<close>

definition randomByteCalldataGas :: uint64 where
  "randomByteCalldataGas = 16"

definition TxGas :: uint64 where
  "TxGas = 21000"

text \<open>
  Modelled from the spec: the spec names a per-blob total-slot-size constant and a per-blob
  usable-data-capacity constant; their declarations (\<open>eth.BlobSize\<close>,
  \<open>eth.MaxBlobDataSize\<close>) are not among the sources. A blob is 4096 field elements of 32
  bytes; the blob encoding stores \<open>(4 * 31 + 3) * 1024 - 4\<close> bytes of data in it. Both are
  untyped constants, which the source multiplies with an \<open>int64\<close>.
\<close>

definition BlobSize :: "64 word" where
  "BlobSize = 131072"

definition MaxBlobDataSize :: "64 word" where
  "MaxBlobDataSize = 130044"

text \<open>
  \<open>latestConfig\<close> is a pointer to a \<open>ChannelConfig\<close>: nil, or one of the two addresses
  the program ever takes, those of the config fields of the struct itself.
\<close>

datatype ConfigPtr = NilConfig | AddrBlobConfig | AddrCalldataConfig

text \<open>
  The logger, the lifecycle context and the timeout do not enter any result. \<open>gasPricer\<close>
  is an interface value: nil (\<open>None\<close>) or some pricer, a collaborator of which only the
  answers matter; what it answers on a call is an argument of that call.
\<close>

record 'p DynamicEthChannelConfig =
  gasPricer :: "'p option"
  blobConfig :: ChannelConfig
  calldataConfig :: ChannelConfig
  latestConfig :: ConfigPtr

definition deref :: "'p DynamicEthChannelConfig \<Rightarrow> ConfigPtr \<Rightarrow> ChannelConfig option" where
  "deref dec p = (case p of NilConfig \<Rightarrow> None
                          | AddrBlobConfig \<Rightarrow> Some (blobConfig dec)
                          | AddrCalldataConfig \<Rightarrow> Some (calldataConfig dec))"

text \<open>
  The constructor. The struct literal names \<open>log\<close>, \<open>ctx\<close>, \<open>timeout\<close>, \<open>blobConfig\<close> and
  \<open>calldataConfig\<close>; the fields it does not name, \<open>gasPricer\<close> and \<open>latestConfig\<close>, are
  nil. The argument \<open>pricer\<close> is not stored.
\<close>

definition NewDynamicEthChannelConfig ::
    "'p \<Rightarrow> ChannelConfig \<Rightarrow> ChannelConfig \<Rightarrow> 'p DynamicEthChannelConfig" where
  "NewDynamicEthChannelConfig pricer blobCfg calldataCfg =
     (let dec = \<lparr>gasPricer = None, blobConfig = blobCfg, calldataConfig = calldataCfg,
                 latestConfig = NilConfig\<rparr>
      in dec\<lparr>latestConfig := AddrBlobConfig\<rparr>)"

text \<open>The key-value context of the logger \<open>lgr\<close> that the decision is logged with.\<close>

record CostLog =
  base_fee :: int
  blob_base_fee :: int
  tip_cap :: int
  calldata_bytes :: uint64
  calldata_cost :: int
  blob_data_bytes :: int
  blob_cost :: int

datatype LogLine =
    Warn string error
  | Info CostLog string

text \<open>
  \<open>ChannelConfig\<close>. The first argument is the answer of \<open>SuggestGasPriceCaps\<close> at this
  call: an error, or \<open>(tipCap, baseFee, blobBaseFee)\<close> as \<open>big.Int\<close> values. The result is
  the returned config with the line logged, or the panic of a call through a nil pointer,
  and the selector after the call. \<open>int64(x)\<close> of a \<open>uint64\<close> reinterprets the bits
  (\<open>sint\<close>); \<open>uint64\<close> and \<open>int64\<close> arithmetic wraps; \<open>big.Int\<close> arithmetic is that of
  \<open>int\<close>; \<open>a.Cmp(b) == 1\<close> is \<open>a > b\<close>.
\<close>

definition ChannelConfig ::
    "error + (int \<times> int \<times> int) \<Rightarrow> 'p DynamicEthChannelConfig
       \<Rightarrow> (error + ChannelConfig \<times> LogLine) \<times> 'p DynamicEthChannelConfig" where
  "ChannelConfig answer dec =
     (case gasPricer dec of
        None \<Rightarrow> (Inl NilPointerPanic, dec)
      | Some pricer \<Rightarrow>
     (case answer of
        Inl err \<Rightarrow>
          (case deref dec (latestConfig dec) of
             None \<Rightarrow> (Inl NilPointerPanic, dec)
           | Some latest \<Rightarrow>
               (Inr (latest, Warn ''Error querying gas prices, returning latest config'' err),
                dec))
      | Inr (tipCap, baseFee, blobBaseFee) \<Rightarrow>
          (let calldataBytes = MaxFrameSize (calldataConfig dec) + 1;
               calldataGas = sint (calldataBytes * randomByteCalldataGas + TxGas);
               calldataPrice = baseFee + tipCap;
               calldataCost = calldataGas * calldataPrice;
               blobGas = sint (BlobSize * TargetNumFrames (blobConfig dec));
               blobCost0 = blobGas * blobBaseFee;
               blobCalldataCost = sint TxGas * calldataPrice;
               blobCost = blobCost0 + blobCalldataCost;
               blobDataBytes = sint (MaxBlobDataSize * TargetNumFrames (blobConfig dec));
               lgr = \<lparr>base_fee = baseFee, blob_base_fee = blobBaseFee, tip_cap = tipCap,
                      calldata_bytes = calldataBytes, calldata_cost = calldataCost,
                      blob_data_bytes = blobDataBytes, blob_cost = blobCost\<rparr>
           in if blobCost * sint calldataBytes > calldataCost * blobDataBytes
              then (Inr (calldataConfig dec, Info lgr ''Using calldata channel config''), dec)
              else (Inr (blobConfig dec, Info lgr ''Using blob channel config''), dec))))"

text \<open>
  What a call of \<open>ChannelConfig\<close> returned, and the context it logged a decision with.
\<close>

definition returned_config ::
    "(error + ChannelConfig \<times> LogLine) \<times> 'p DynamicEthChannelConfig
       \<Rightarrow> ChannelConfig option" where
  "returned_config res = (case fst res of Inl _ \<Rightarrow> None | Inr (cfg, _) \<Rightarrow> Some cfg)"

definition logged_costs ::
    "(error + ChannelConfig \<times> LogLine) \<times> 'p DynamicEthChannelConfig \<Rightarrow> CostLog option" where
  "logged_costs res =
     (case fst res of Inr (_, Info lg _) \<Rightarrow> Some lg | _ \<Rightarrow> None)"

text \<open>
  The two cost estimates as the specification words them, over the unbounded integers:
  calldata gas is \<open>bytes * perNonZeroByteGas + baseTxGas\<close> for one frame of the maximal
  size and the version byte, priced at \<open>tipCap + baseFee\<close>; blob gas is
  \<open>blobSlotSize * targetFrameCount\<close>, priced at the blob base fee, plus the base
  transaction gas priced at the calldata price.
\<close>

definition spec_calldataCost :: "ChannelConfig \<Rightarrow> int \<Rightarrow> int \<Rightarrow> int" where
  "spec_calldataCost calldataCfg tipCap baseFee =
     ((uint (MaxFrameSize calldataCfg) + 1) * uint randomByteCalldataGas + uint TxGas)
       * (tipCap + baseFee)"

definition spec_blobCost :: "ChannelConfig \<Rightarrow> int \<Rightarrow> int \<Rightarrow> int \<Rightarrow> int" where
  "spec_blobCost blobCfg tipCap baseFee blobBaseFee =
     (uint BlobSize * sint (TargetNumFrames blobCfg)) * blobBaseFee
       + uint TxGas * (tipCap + baseFee)"

text \<open>
  The byte budgets and the comparison as the specification words them: the calldata
  budget is the assumed payload, one frame of the maximal size and the version byte; the
  blob budget is the usable capacity of a blob times the target frame count; calldata is
  chosen when the blob cost times the calldata budget exceeds the calldata cost times the
  blob budget.
\<close>

definition spec_calldataBytes :: "ChannelConfig \<Rightarrow> int" where
  "spec_calldataBytes calldataCfg = uint (MaxFrameSize calldataCfg) + 1"

definition spec_blobDataBytes :: "ChannelConfig \<Rightarrow> int" where
  "spec_blobDataBytes blobCfg = uint MaxBlobDataSize * sint (TargetNumFrames blobCfg)"

definition spec_chooses_calldata ::
    "ChannelConfig \<Rightarrow> ChannelConfig \<Rightarrow> int \<Rightarrow> int \<Rightarrow> int \<Rightarrow> bool" where
  "spec_chooses_calldata calldataCfg blobCfg tipCap baseFee blobBaseFee =
     (spec_blobCost blobCfg tipCap baseFee blobBaseFee * spec_calldataBytes calldataCfg
        > spec_calldataCost calldataCfg tipCap baseFee * spec_blobDataBytes blobCfg)"

section \<open>op-node: \<open>ChannelInReader\<close>\<close>

text \<open>\<open>bytes.Reader\<close>: the slice read from and the read position.\<close>

datatype bytes_Reader = BytesReader (rd_s: "byte list") (rd_i: nat)

definition bytes_NewReader :: "byte list \<Rightarrow> bytes_Reader" where
  "bytes_NewReader b = BytesReader b 0"

definition bytes_Reset :: "bytes_Reader \<Rightarrow> byte list \<Rightarrow> bytes_Reader" where
  "bytes_Reset rd b = BytesReader b 0"

text \<open>
  The decompression filter (\<open>compress/zlib\<close>) and the streaming decoder (\<open>rlp.Stream\<close>)
  are collaborators, taken as a parameter: \<open>'z\<close> is the state of a zlib reader, \<open>'s\<close> the
  state of an rlp stream, \<open>'b\<close> the decoded \<open>BatchData\<close>. The objects refer to each other
  (the stream reads from the zlib reader, which reads from the \<open>bytes.Reader\<close>), so an
  operation takes and gives back the state of every object it can reach.
  \<^item> \<open>zlib_NewReader rd\<close> reads the header from \<open>rd\<close>: an error, or a new reader.
  \<^item> \<open>zlib_Reset z rd\<close> re-initialises the reader \<open>z\<close> over \<open>rd\<close>, or fails with an error.
  \<^item> \<open>rlp_NewStream limit\<close>, \<open>rlp_Reset s limit\<close> give a stream at its start; neither reads.
  \<^item> \<open>rlp_Decode s z rd\<close> decodes the next value: an error (\<open>EOF\<close> among them) or a batch.
\<close>

record ('z, 's, 'b) Codec =
  zlib_NewReader :: "bytes_Reader \<Rightarrow> (error + 'z) \<times> bytes_Reader"
  zlib_Reset :: "'z \<Rightarrow> bytes_Reader \<Rightarrow> error option \<times> 'z \<times> bytes_Reader"
  rlp_NewStream :: "nat \<Rightarrow> 's"
  rlp_Reset :: "'s \<Rightarrow> nat \<Rightarrow> 's"
  rlp_Decode :: "'s \<Rightarrow> 'z \<Rightarrow> bytes_Reader \<Rightarrow> (error + 'b) \<times> 's \<times> 'z \<times> bytes_Reader"

text \<open>A nil pointer, interface or slice is \<open>None\<close>.\<close>

record ('z, 's) ChannelInReader =
  ready :: bool
  r :: "bytes_Reader option"
  readZlib :: "'z option"
  readRLP :: "'s option"
  l1Origin :: L1BlockRef
  originComplete :: bool
  data :: "byte list option"

definition NewChannelInReader :: "('z, 's) ChannelInReader" where
  "NewChannelInReader =
     \<lparr>ready = False, r = None, readZlib = None, readRLP = None,
      l1Origin = \<lparr>Hash = 0, Number = 0, ParentHash = 0, Time = 0\<rparr>,
      originComplete = False, data = None\<rparr>"

definition AddOrigin ::
    "L1BlockRef \<Rightarrow> ('z, 's) ChannelInReader \<Rightarrow> error option \<times> ('z, 's) ChannelInReader" where
  "AddOrigin origin cr =
     (if Hash (l1Origin cr) \<noteq> ParentHash origin
      then (Some (OriginMismatch origin (l1Origin cr)), cr)
      else (None, cr\<lparr>l1Origin := origin, originComplete := False\<rparr>))"

definition EndOrigin :: "('z, 's) ChannelInReader \<Rightarrow> ('z, 's) ChannelInReader" where
  "EndOrigin cr = cr\<lparr>originComplete := True\<rparr>"

definition OriginDone :: "('z, 's) ChannelInReader \<Rightarrow> bool" where
  "OriginDone cr = originComplete cr"

definition WriteChannel ::
    "byte list option \<Rightarrow> ('z, 's) ChannelInReader \<Rightarrow> ('z, 's) ChannelInReader" where
  "WriteChannel d cr = cr\<lparr>data := d, ready := False\<rparr>"

text \<open>
  The block \<open>if !cr.ready { ... }\<close> of \<open>ReadBatch\<close>, in its three steps. \<open>init_reader\<close>
  makes \<open>cr.r\<close> read the channel bytes \<open>d\<close> from their start. \<open>init_zlib\<close> creates the
  zlib reader over \<open>cr.r\<close> (here \<open>rd\<close>) or resets the one at hand, and gives the error
  that \<open>ReadBatch\<close> returns early with, if any. \<open>init_rlp\<close> creates the stream or resets
  the one at hand.
\<close>

definition init_reader ::
    "byte list \<Rightarrow> ('z, 's) ChannelInReader \<Rightarrow> bytes_Reader \<times> ('z, 's) ChannelInReader" where
  "init_reader d cr =
     (let rd = (case r cr of None \<Rightarrow> bytes_NewReader d | Some old \<Rightarrow> bytes_Reset old d)
      in (rd, cr\<lparr>r := Some rd\<rparr>))"

definition init_zlib ::
    "('z, 's, 'b) Codec \<Rightarrow> bytes_Reader \<Rightarrow> ('z, 's) ChannelInReader
       \<Rightarrow> error option \<times> ('z, 's) ChannelInReader" where
  "init_zlib K rd cr =
     (case readZlib cr of
        None \<Rightarrow>
          (case zlib_NewReader K rd of
             (Inl err, rd') \<Rightarrow> (Some err, cr\<lparr>r := Some rd'\<rparr>)
           | (Inr zr, rd') \<Rightarrow> (None, cr\<lparr>r := Some rd', readZlib := Some zr\<rparr>))
      | Some z \<Rightarrow>
          (case zlib_Reset K z rd of
             (failed, z', rd') \<Rightarrow> (failed, cr\<lparr>r := Some rd', readZlib := Some z'\<rparr>)))"

definition init_rlp ::
    "('z, 's, 'b) Codec \<Rightarrow> ('z, 's) ChannelInReader \<Rightarrow> ('z, 's) ChannelInReader" where
  "init_rlp K cr =
     (case readRLP cr of
        None \<Rightarrow> cr\<lparr>readRLP := Some (rlp_NewStream K 10000000)\<rparr>
      | Some s \<Rightarrow> cr\<lparr>readRLP := Some (rlp_Reset K s 10000000)\<rparr>)"

definition ReadBatch_init ::
    "('z, 's, 'b) Codec \<Rightarrow> ('z, 's) ChannelInReader
       \<Rightarrow> error option \<times> ('z, 's) ChannelInReader" where
  "ReadBatch_init K cr =
     (case data cr of
        None \<Rightarrow> (Some EOF, cr)
      | Some d \<Rightarrow>
          (case init_reader d cr of
             (rd, cr1) \<Rightarrow>
               (case init_zlib K rd cr1 of
                  (Some err, cr2) \<Rightarrow> (Some err, cr2)
                | (None, cr2) \<Rightarrow> (None, (init_rlp K cr2)\<lparr>ready := True\<rparr>))))"

text \<open>
  The last line, \<open>return cr.readRLP.Decode(dest)\<close>: the batch stored through \<open>dest\<close>, or the
  error. A stream is only ever made over a zlib reader that is made over \<open>cr.r\<close>.
\<close>

definition ReadBatch_decode ::
    "('z, 's, 'b) Codec \<Rightarrow> ('z, 's) ChannelInReader
       \<Rightarrow> (error + 'b) \<times> ('z, 's) ChannelInReader" where
  "ReadBatch_decode K cr =
     (case (readRLP cr, readZlib cr, r cr) of
        (Some s, Some z, Some rd) \<Rightarrow>
          (case rlp_Decode K s z rd of
             (res, s', z', rd') \<Rightarrow>
               (res, cr\<lparr>r := Some rd', readZlib := Some z', readRLP := Some s'\<rparr>))
      | _ \<Rightarrow> (Inl NilPointerPanic, cr))"

definition ReadBatch ::
    "('z, 's, 'b) Codec \<Rightarrow> ('z, 's) ChannelInReader
       \<Rightarrow> (error + 'b) \<times> ('z, 's) ChannelInReader" where
  "ReadBatch K cr =
     (if \<not> ready cr
      then (case ReadBatch_init K cr of
              (Some err, cr') \<Rightarrow> (Inl err, cr')
            | (None, cr') \<Rightarrow> ReadBatch_decode K cr')
      else ReadBatch_decode K cr)"

definition NextChannel :: "('z, 's) ChannelInReader \<Rightarrow> ('z, 's) ChannelInReader" where
  "NextChannel cr = cr\<lparr>ready := False, data := None\<rparr>"

definition Reset :: "L1BlockRef \<Rightarrow> ('z, 's) ChannelInReader \<Rightarrow> ('z, 's) ChannelInReader" where
  "Reset origin cr = cr\<lparr>ready := False, l1Origin := origin\<rparr>"

definition CurrentL1Origin :: "('z, 's) ChannelInReader \<Rightarrow> L1BlockRef" where
  "CurrentL1Origin cr = l1Origin cr"

text \<open>A call of one of the methods that change the reader, and a sequence of such calls.\<close>

datatype Call =
    CallAddOrigin L1BlockRef
  | CallEndOrigin
  | CallWriteChannel "byte list option"
  | CallReadBatch
  | CallNextChannel
  | CallReset L1BlockRef

fun call ::
    "('z, 's, 'b) Codec \<Rightarrow> Call \<Rightarrow> ('z, 's) ChannelInReader \<Rightarrow> ('z, 's) ChannelInReader" where
  "call K (CallAddOrigin origin) cr = snd (AddOrigin origin cr)"
| "call K CallEndOrigin cr = EndOrigin cr"
| "call K (CallWriteChannel d) cr = WriteChannel d cr"
| "call K CallReadBatch cr = snd (ReadBatch K cr)"
| "call K CallNextChannel cr = NextChannel cr"
| "call K (CallReset origin) cr = Reset origin cr"

fun calls ::
    "('z, 's, 'b) Codec \<Rightarrow> Call list \<Rightarrow> ('z, 's) ChannelInReader
       \<Rightarrow> ('z, 's) ChannelInReader" where
  "calls K [] cr = cr"
| "calls K (c # cs) cr = calls K cs (call K c cr)"

fun channel_call :: "Call \<Rightarrow> bool" where
  "channel_call (CallWriteChannel d) = True"
| "channel_call CallReadBatch = True"
| "channel_call CallNextChannel = True"
| "channel_call c = False"

text \<open>
  The readers as \<open>ReadBatch\<close> wires them: a stream only with a zlib reader, a zlib reader
  only with a \<open>bytes.Reader\<close>, and \<open>ready\<close> only with a stream.
\<close>

definition wired :: "('z, 's) ChannelInReader \<Rightarrow> bool" where
  "wired cr =
     (case (readRLP cr, readZlib cr, r cr) of
        (Some s, Some z, Some rd) \<Rightarrow> True
      | (None, Some z, Some rd) \<Rightarrow> \<not> ready cr
      | (None, None, _) \<Rightarrow> \<not> ready cr
      | _ \<Rightarrow> False)"

text \<open>
  An instance of the collaborators to run the reader on. A channel starts with the header
  byte \<open>0x78\<close>; every further byte is one encoded value: a zero byte is a value the decoder
  rejects (having read it), any other byte decodes to itself; the end of the bytes is
  \<open>EOF\<close>.
\<close>

definition byte_header :: "bytes_Reader \<Rightarrow> error option \<times> bytes_Reader" where
  "byte_header rd =
     (if rd_i rd < length (rd_s rd) \<and> rd_s rd ! rd_i rd = 0x78
      then (None, BytesReader (rd_s rd) (rd_i rd + 1))
      else (Some (LibraryError ''zlib: invalid header''), rd))"

definition byte_decode ::
    "nat \<Rightarrow> unit \<Rightarrow> bytes_Reader \<Rightarrow> (error + byte) \<times> nat \<times> unit \<times> bytes_Reader" where
  "byte_decode s z rd =
     (if length (rd_s rd) \<le> rd_i rd then (Inl EOF, s, z, rd)
      else if rd_s rd ! rd_i rd = 0
        then (Inl (LibraryError ''unrecognized batch type''), s, z,
              BytesReader (rd_s rd) (rd_i rd + 1))
        else (Inr (rd_s rd ! rd_i rd), s, z, BytesReader (rd_s rd) (rd_i rd + 1)))"

definition byte_codec :: "(unit, nat, byte) Codec" where
  "byte_codec =
     \<lparr>zlib_NewReader = (\<lambda>rd. case byte_header rd of
                               (Some err, rd') \<Rightarrow> (Inl err, rd')
                             | (None, rd') \<Rightarrow> (Inr (), rd')),
      zlib_Reset = (\<lambda>z rd. case byte_header rd of (failed, rd') \<Rightarrow> (failed, z, rd')),
      rlp_NewStream = (\<lambda>limit. limit),
      rlp_Reset = (\<lambda>s limit. limit),
      rlp_Decode = byte_decode\<rparr>"

text \<open>Configs and origins to run the definitions on.\<close>

definition example_blobConfig :: ChannelConfig where
  "example_blobConfig = \<lparr>MaxFrameSize = 130043, TargetNumFrames = 1, MultiFrameTxs = True\<rparr>"

definition example_calldataConfig :: ChannelConfig where
  "example_calldataConfig =
     \<lparr>MaxFrameSize = 120000, TargetNumFrames = 1, MultiFrameTxs = False\<rparr>"

text \<open>
  A selector as the constructor makes it, and the same with a gas pricer put in place (the
  pricer is the unit value; its answers are the first argument of \<open>ChannelConfig\<close>).
\<close>

definition constructed_selector :: "unit DynamicEthChannelConfig" where
  "constructed_selector =
     NewDynamicEthChannelConfig () example_blobConfig example_calldataConfig"

definition example_selector :: "unit DynamicEthChannelConfig" where
  "example_selector = constructed_selector\<lparr>gasPricer := Some ()\<rparr>"

definition wrapping_calldataConfig :: ChannelConfig where
  "wrapping_calldataConfig =
     \<lparr>MaxFrameSize = 18446744073709551615, TargetNumFrames = 1, MultiFrameTxs = False\<rparr>"

definition origin_1 :: L1BlockRef where
  "origin_1 = \<lparr>Hash = 0xA1, Number = 1, ParentHash = 0, Time = 12\<rparr>"

definition origin_3 :: L1BlockRef where
  "origin_3 = \<lparr>Hash = 0xA3, Number = 3, ParentHash = 0xA2, Time = 36\<rparr>"

definition fresh_reader :: "(unit, nat) ChannelInReader" where
  "fresh_reader = NewChannelInReader"

definition example_channel :: "byte list" where
  "example_channel = [0x78, 0, 7]"

lemmas selector_defs = ChannelConfig_def Let_def logged_costs_def returned_config_def
  NewDynamicEthChannelConfig_def deref_def example_selector_def constructed_selector_def
  example_blobConfig_def
  example_calldataConfig_def wrapping_calldataConfig_def randomByteCalldataGas_def TxGas_def
  BlobSize_def MaxBlobDataSize_def

lemmas reader_defs = ReadBatch_def ReadBatch_init_def ReadBatch_decode_def Let_def
  init_reader_def init_zlib_def init_rlp_def bytes_NewReader_def bytes_Reset_def
  WriteChannel_def NewChannelInReader_def NextChannel_def Reset_def AddOrigin_def
  EndOrigin_def OriginDone_def CurrentL1Origin_def fresh_reader_def example_channel_def
  origin_1_def origin_3_def byte_codec_def byte_header_def byte_decode_def

section \<open>The selector\<close>

text \<open>No call of \<open>ChannelConfig\<close> changes the selector, \<open>latestConfig\<close> included.\<close>

lemma ChannelConfig_state: "snd (ChannelConfig answer dec) = dec"
  by (auto simp: ChannelConfig_def Let_def split: option.splits sum.splits prod.splits)

text \<open>
  A selector fresh from the constructor has no gas pricer: a call of \<open>ChannelConfig\<close> on
  it is a call through a nil interface.
\<close>

lemma NewDynamicEthChannelConfig_ChannelConfig:
  "fst (ChannelConfig answer (NewDynamicEthChannelConfig pricer blobCfg calldataCfg))
     = Inl NilPointerPanic"
  by (simp add: ChannelConfig_def NewDynamicEthChannelConfig_def)

lemma protocol_constants:
  "uint randomByteCalldataGas = 16" "uint TxGas = 21000" "sint TxGas = 21000"
  "uint BlobSize = 131072"
  by (simp_all add: randomByteCalldataGas_def TxGas_def BlobSize_def)

text \<open>
  While \<open>latestConfig\<close> points to the blob config, a failing call returns the blob config,
  whatever the call before it returned.
\<close>

lemma ChannelConfig_failure_returns_blobConfig:
  assumes "gasPricer dec \<noteq> None" and "latestConfig dec = AddrBlobConfig"
  shows "returned_config (ChannelConfig (Inl err) (snd (ChannelConfig answer dec)))
           = Some (blobConfig dec)"
proof -
  have "returned_config (ChannelConfig (Inl err) dec) = Some (blobConfig dec)"
    using assms by (auto simp: ChannelConfig_def returned_config_def deref_def)
  then show ?thesis
    by (simp only: ChannelConfig_state)
qed

lemma sint_of_int_in_range:
  fixes x :: int
  assumes "- (2 ^ 63) \<le> x" and "x < 2 ^ 63"
  shows "sint (word_of_int x :: 64 word) = x"
  using assms by (simp add: sint_sbintrunc' signed_take_bit_int_eq_self)

lemma calldataGas_exact:
  fixes m :: "64 word"
  assumes "(uint m + 1) * 16 + 21000 < 2 ^ 63"
  shows "sint ((m + 1) * 16 + 21000) = (uint m + 1) * 16 + 21000"
proof -
  have "(m + 1) * 16 + 21000 = (word_of_int ((uint m + 1) * 16 + 21000) :: 64 word)"
    by simp
  moreover have "- (2 ^ 63) \<le> (uint m + 1) * 16 + 21000"
  proof -
    have "0 \<le> uint m" by simp
    then have "0 \<le> (uint m + 1) * 16 + 21000" by simp
    moreover have "- (2 ^ 63) \<le> (0::int)" by simp
    ultimately show ?thesis by (rule order_trans [rotated])
  qed
  ultimately show ?thesis
    using assms sint_of_int_in_range by metis
qed

lemma blobGas_exact:
  fixes t :: "64 word"
  assumes "- (2 ^ 63) \<le> 131072 * sint t" and "131072 * sint t < 2 ^ 63"
  shows "sint (131072 * t) = 131072 * sint t"
proof -
  have "131072 * t = (word_of_int (131072 * sint t) :: 64 word)"
    by simp
  then show ?thesis
    using assms sint_of_int_in_range by metis
qed

lemma calldataBytes_exact:
  fixes m :: "64 word"
  assumes "(uint m + 1) * 16 + 21000 < 2 ^ 63"
  shows "sint (m + 1) = uint m + 1"
proof -
  have "m + 1 = (word_of_int (uint m + 1) :: 64 word)"
    by simp
  moreover have "0 \<le> uint m" by simp
  then have "- (2 ^ 63) \<le> uint m + 1" by simp
  moreover from assms \<open>0 \<le> uint m\<close> have "uint m + 1 < 2 ^ 63" by simp
  ultimately show ?thesis
    using sint_of_int_in_range by metis
qed

lemma blobDataBytes_exact:
  fixes t :: "64 word"
  assumes "- (2 ^ 63) \<le> 131072 * sint t" and "131072 * sint t < 2 ^ 63"
  shows "sint (130044 * t) = 130044 * sint t"
proof -
  have "130044 * t = (word_of_int (130044 * sint t) :: 64 word)"
    by simp
  moreover from assms have "- (2 ^ 63) \<le> 130044 * sint t" by simp
  moreover from assms have "130044 * sint t < 2 ^ 63" by simp
  ultimately show ?thesis
    using sint_of_int_in_range by metis
qed

text \<open>
  C1, as stated: with the costs and the byte budgets of the specification, the calldata
  config is returned exactly when the blob cost times the calldata budget exceeds the
  calldata cost times the blob budget. It fails for a calldata config whose \<open>MaxFrameSize\<close>
  is the largest \<open>uint64\<close>: at the quote \<open>(1, 1, 1000000)\<close> the cross-products of the
  specification prefer calldata, while in the code the byte count wraps to 0, the left
  product is 0, and the blob config is returned.
\<close>

theorem ChannelConfig_wrap_counterexample:
  "spec_chooses_calldata wrapping_calldataConfig example_blobConfig 1 1 1000000 \<and>
   returned_config
     (ChannelConfig (Inr (1, 1, 1000000))
        (example_selector\<lparr>calldataConfig := wrapping_calldataConfig\<rparr>))
     = Some example_blobConfig \<and>
   example_blobConfig \<noteq> wrapping_calldataConfig"
  by (simp add: selector_defs spec_chooses_calldata_def spec_calldataCost_def
      spec_blobCost_def spec_calldataBytes_def spec_blobDataBytes_def)

text \<open>
  C1, amended. On a fetched fee quote (there is a gas pricer and it answers with a quote),
  and where the gas figures fit the machine integers they are computed in (the calldata gas
  is below \<open>2 ^ 63\<close>, the blob gas is an \<open>int64\<close>), \<open>ChannelConfig\<close> returns the calldata
  config when the blob cost times the calldata byte budget exceeds the calldata cost times
  the blob byte budget, and the blob config in every other case, equality included. Costs
  and budgets are the formulas of the specification over \<open>MaxFrameSize\<close>,
  \<open>TargetNumFrames\<close> and the three fees. Where the two configs differ, the calldata config
  is returned only then.
\<close>

theorem ChannelConfig_cross_product:
  assumes "gasPricer dec \<noteq> None"
      and "(uint (MaxFrameSize (calldataConfig dec)) + 1) * 16 + 21000 < 2 ^ 63"
      and "- (2 ^ 63) \<le> 131072 * sint (TargetNumFrames (blobConfig dec))"
      and "131072 * sint (TargetNumFrames (blobConfig dec)) < 2 ^ 63"
  shows "returned_config (ChannelConfig (Inr (tipCap, baseFee, blobBaseFee)) dec)
           = Some (if spec_chooses_calldata (calldataConfig dec) (blobConfig dec)
                        tipCap baseFee blobBaseFee
                   then calldataConfig dec else blobConfig dec) \<and>
         (calldataConfig dec \<noteq> blobConfig dec \<longrightarrow>
            (returned_config (ChannelConfig (Inr (tipCap, baseFee, blobBaseFee)) dec)
               = Some (calldataConfig dec)
             \<longleftrightarrow> spec_chooses_calldata (calldataConfig dec) (blobConfig dec)
                   tipCap baseFee blobBaseFee))"
proof -
  have g: "sint ((MaxFrameSize (calldataConfig dec) + 1) * randomByteCalldataGas + TxGas)
             = (uint (MaxFrameSize (calldataConfig dec)) + 1) * uint randomByteCalldataGas
                 + uint TxGas"
    unfolding protocol_constants
    using calldataGas_exact [OF assms(2)]
    by (simp only: randomByteCalldataGas_def TxGas_def)
  have b: "sint (BlobSize * TargetNumFrames (blobConfig dec))
             = uint BlobSize * sint (TargetNumFrames (blobConfig dec))"
    unfolding protocol_constants
    using blobGas_exact [OF assms(3) assms(4)]
    by (simp only: BlobSize_def)
  have cb: "sint (MaxFrameSize (calldataConfig dec) + 1)
              = uint (MaxFrameSize (calldataConfig dec)) + 1"
    by (rule calldataBytes_exact [OF assms(2)])
  have md: "uint MaxBlobDataSize = 130044"
    by (simp add: MaxBlobDataSize_def)
  have bd: "sint (MaxBlobDataSize * TargetNumFrames (blobConfig dec))
              = uint MaxBlobDataSize * sint (TargetNumFrames (blobConfig dec))"
    unfolding md
    using blobDataBytes_exact [OF assms(3) assms(4)]
    by (simp only: MaxBlobDataSize_def)
  have code: "returned_config (ChannelConfig (Inr (tipCap, baseFee, blobBaseFee)) dec)
      = Some (if (sint (BlobSize * TargetNumFrames (blobConfig dec)) * blobBaseFee
                    + sint TxGas * (baseFee + tipCap))
                  * sint (MaxFrameSize (calldataConfig dec) + 1)
                > sint ((MaxFrameSize (calldataConfig dec) + 1) * randomByteCalldataGas + TxGas)
                    * (baseFee + tipCap)
                  * sint (MaxBlobDataSize * TargetNumFrames (blobConfig dec))
              then calldataConfig dec else blobConfig dec)"
    using assms(1) by (auto simp: ChannelConfig_def Let_def returned_config_def)
  have same: "((sint (BlobSize * TargetNumFrames (blobConfig dec)) * blobBaseFee
                    + sint TxGas * (baseFee + tipCap))
                  * sint (MaxFrameSize (calldataConfig dec) + 1)
                > sint ((MaxFrameSize (calldataConfig dec) + 1) * randomByteCalldataGas + TxGas)
                    * (baseFee + tipCap)
                  * sint (MaxBlobDataSize * TargetNumFrames (blobConfig dec)))
      \<longleftrightarrow> spec_chooses_calldata (calldataConfig dec) (blobConfig dec)
            tipCap baseFee blobBaseFee"
    unfolding spec_chooses_calldata_def spec_calldataCost_def spec_blobCost_def
      spec_calldataBytes_def spec_blobDataBytes_def g b cb bd
    by (simp only: protocol_constants add.commute [of tipCap baseFee])
  have ret: "returned_config (ChannelConfig (Inr (tipCap, baseFee, blobBaseFee)) dec)
      = Some (if spec_chooses_calldata (calldataConfig dec) (blobConfig dec)
                   tipCap baseFee blobBaseFee
              then calldataConfig dec else blobConfig dec)"
    unfolding code by (simp only: same)
  show ?thesis
    unfolding ret by auto
qed

theorem ChannelConfig_cross_product_witness:
  "gasPricer example_selector \<noteq> None \<and>
   (uint (MaxFrameSize (calldataConfig example_selector)) + 1) * 16 + 21000 < 2 ^ 63 \<and>
   - (2 ^ 63) \<le> 131072 * sint (TargetNumFrames (blobConfig example_selector)) \<and>
   131072 * sint (TargetNumFrames (blobConfig example_selector)) < 2 ^ 63 \<and>
   calldataConfig example_selector \<noteq> blobConfig example_selector \<and>
   spec_chooses_calldata example_calldataConfig example_blobConfig 1 1 1000000 \<and>
   returned_config (ChannelConfig (Inr (1, 1, 1000000)) example_selector)
     = Some example_calldataConfig \<and>
   \<not> spec_chooses_calldata example_calldataConfig example_blobConfig 1 1 1 \<and>
   returned_config (ChannelConfig (Inr (1, 1, 1)) example_selector)
     = Some example_blobConfig \<and>
   spec_blobCost example_blobConfig 0 0 0 * spec_calldataBytes example_calldataConfig
     = spec_calldataCost example_calldataConfig 0 0 * spec_blobDataBytes example_blobConfig \<and>
   returned_config (ChannelConfig (Inr (0, 0, 0)) example_selector)
     = Some example_blobConfig"
proof -
  have pricer: "gasPricer example_selector \<noteq> None"
    by (simp add: example_selector_def)
  have cfgs: "calldataConfig example_selector = example_calldataConfig"
    "blobConfig example_selector = example_blobConfig"
    by (simp_all add: example_selector_def constructed_selector_def
        NewDynamicEthChannelConfig_def)
  have fits: "(uint (MaxFrameSize (calldataConfig example_selector)) + 1) * 16 + 21000 < 2 ^ 63"
    "- (2 ^ 63) \<le> 131072 * sint (TargetNumFrames (blobConfig example_selector))"
    "131072 * sint (TargetNumFrames (blobConfig example_selector)) < 2 ^ 63"
    by (simp_all add: cfgs example_calldataConfig_def example_blobConfig_def)
  have differ: "calldataConfig example_selector \<noteq> blobConfig example_selector"
    by (simp add: cfgs example_calldataConfig_def example_blobConfig_def)
  have high: "spec_chooses_calldata example_calldataConfig example_blobConfig 1 1 1000000"
    and low: "\<not> spec_chooses_calldata example_calldataConfig example_blobConfig 1 1 1"
    and tie: "spec_blobCost example_blobConfig 0 0 0 * spec_calldataBytes example_calldataConfig
      = spec_calldataCost example_calldataConfig 0 0 * spec_blobDataBytes example_blobConfig"
    by (simp_all add: spec_chooses_calldata_def spec_calldataCost_def spec_blobCost_def
        spec_calldataBytes_def spec_blobDataBytes_def example_calldataConfig_def
        example_blobConfig_def randomByteCalldataGas_def TxGas_def BlobSize_def
        MaxBlobDataSize_def)
  from tie
  have zero: "\<not> spec_chooses_calldata example_calldataConfig example_blobConfig 0 0 0"
    by (simp add: spec_chooses_calldata_def)
  from ChannelConfig_cross_product [OF pricer fits, of 1 1 1000000] high
  have r1: "returned_config (ChannelConfig (Inr (1, 1, 1000000)) example_selector)
              = Some example_calldataConfig"
    by (simp add: cfgs)
  from ChannelConfig_cross_product [OF pricer fits, of 1 1 1] low
  have r2: "returned_config (ChannelConfig (Inr (1, 1, 1)) example_selector)
              = Some example_blobConfig"
    by (simp add: cfgs)
  from ChannelConfig_cross_product [OF pricer fits, of 0 0 0] zero
  have r3: "returned_config (ChannelConfig (Inr (0, 0, 0)) example_selector)
              = Some example_blobConfig"
    by (simp add: cfgs)
  from pricer fits differ high r1 low r2 tie r3 show ?thesis
    by (intro conjI)
qed

text \<open>
  C2, as stated: the logged calldata cost is the specification's formula over the unbounded
  integers. It fails for a calldata config whose \<open>MaxFrameSize\<close> is the largest \<open>uint64\<close>:
  \<open>MaxFrameSize + 1\<close> wraps to 0 and the gas is the 21000 of the transaction alone, so
  the logged cost at the price 2 is 42000, where the formula gives \<open>2 ^ 69 + 42000\<close>.
\<close>

theorem costs_wrap_counterexample:
  "map_option calldata_cost
     (logged_costs (ChannelConfig (Inr (1, 1, 1))
        (example_selector\<lparr>calldataConfig := wrapping_calldataConfig\<rparr>)))
     = Some 42000 \<and>
   spec_calldataCost wrapping_calldataConfig 1 1 = 590295810358705693712"
  by (simp add: selector_defs spec_calldataCost_def)

text \<open>
  C2, amended. The gas figures are computed in 64-bit arithmetic and converted to \<open>int64\<close>;
  only the products with the fees are arbitrary-precision. Where the calldata gas is below
  \<open>2 ^ 63\<close> and the blob gas is an \<open>int64\<close>, the two logged costs are the specification's
  formulas.
\<close>

theorem costs_exact:
  assumes "gasPricer dec \<noteq> None"
      and "(uint (MaxFrameSize (calldataConfig dec)) + 1) * 16 + 21000 < 2 ^ 63"
      and "- (2 ^ 63) \<le> 131072 * sint (TargetNumFrames (blobConfig dec))"
      and "131072 * sint (TargetNumFrames (blobConfig dec)) < 2 ^ 63"
  shows "\<exists>lg. logged_costs (ChannelConfig (Inr (tipCap, baseFee, blobBaseFee)) dec) = Some lg \<and>
     calldata_cost lg = spec_calldataCost (calldataConfig dec) tipCap baseFee \<and>
     blob_cost lg = spec_blobCost (blobConfig dec) tipCap baseFee blobBaseFee"
proof -
  have g: "sint ((MaxFrameSize (calldataConfig dec) + 1) * randomByteCalldataGas + TxGas)
             = (uint (MaxFrameSize (calldataConfig dec)) + 1) * uint randomByteCalldataGas
                 + uint TxGas"
    unfolding protocol_constants
    using calldataGas_exact [OF assms(2)]
    by (simp only: randomByteCalldataGas_def TxGas_def)
  have b: "sint (BlobSize * TargetNumFrames (blobConfig dec))
             = uint BlobSize * sint (TargetNumFrames (blobConfig dec))"
    unfolding protocol_constants
    using blobGas_exact [OF assms(3) assms(4)]
    by (simp only: BlobSize_def)
  from assms(1) show ?thesis
    by (auto simp: ChannelConfig_def Let_def logged_costs_def spec_calldataCost_def
        spec_blobCost_def g b protocol_constants add.commute [of baseFee tipCap])
qed

theorem costs_exact_witness:
  "gasPricer example_selector \<noteq> None \<and>
   (uint (MaxFrameSize (calldataConfig example_selector)) + 1) * 16 + 21000 < 2 ^ 63 \<and>
   - (2 ^ 63) \<le> 131072 * sint (TargetNumFrames (blobConfig example_selector)) \<and>
   131072 * sint (TargetNumFrames (blobConfig example_selector)) < 2 ^ 63 \<and>
   (\<exists>lg. logged_costs (ChannelConfig (Inr (1, 1, 1)) example_selector) = Some lg \<and>
      calldata_cost lg = 3882032 \<and> blob_cost lg = 173072)"
  using costs_exact [of example_selector 1 1 1]
  by (simp add: NewDynamicEthChannelConfig_def example_selector_def constructed_selector_def
      example_blobConfig_def example_calldataConfig_def spec_calldataCost_def
      spec_blobCost_def protocol_constants)

text \<open>
  C3. The claim is that a successful call remembers the config it returns, so that a
  later failing call returns it. The code never assigns \<open>latestConfig\<close> after the
  constructor: here the first call chooses the calldata config, \<open>latestConfig\<close> still
  points to the blob config, and the failing call that follows returns the blob config.
\<close>

theorem latestConfig_never_updated:
  "latestConfig example_selector = AddrBlobConfig \<and>
   returned_config (ChannelConfig (Inr (1, 1, 1000000)) example_selector)
     = Some example_calldataConfig \<and>
   latestConfig (snd (ChannelConfig (Inr (1, 1, 1000000)) example_selector))
     = AddrBlobConfig \<and>
   returned_config
     (ChannelConfig (Inl (LibraryError ''context deadline exceeded''))
        (snd (ChannelConfig (Inr (1, 1, 1000000)) example_selector)))
     = Some example_blobConfig \<and>
   example_blobConfig \<noteq> example_calldataConfig"
  by (simp add: selector_defs)

text \<open>
  C9. With a calldata frame size of 120000 bytes and one target blob frame, the quote
  \<open>(1, 1, 1)\<close> gives the blob config and the quote \<open>(1, 1, 1000000)\<close> the calldata
  config; the logged costs and byte counts are the exact integers.
\<close>

theorem ChannelConfig_scenario:
  assumes "gasPricer dec \<noteq> None"
      and "MaxFrameSize (calldataConfig dec) = 120000"
      and "TargetNumFrames (blobConfig dec) = 1"
  shows "returned_config (ChannelConfig (Inr (1, 1, 1)) dec) = Some (blobConfig dec) \<and>
         logged_costs (ChannelConfig (Inr (1, 1, 1)) dec)
           = Some \<lparr>base_fee = 1, blob_base_fee = 1, tip_cap = 1, calldata_bytes = 120001,
                    calldata_cost = 3882032, blob_data_bytes = 130044, blob_cost = 173072\<rparr> \<and>
         returned_config (ChannelConfig (Inr (1, 1, 1000000)) dec)
           = Some (calldataConfig dec) \<and>
         logged_costs (ChannelConfig (Inr (1, 1, 1000000)) dec)
           = Some \<lparr>base_fee = 1, blob_base_fee = 1000000, tip_cap = 1,
                    calldata_bytes = 120001, calldata_cost = 3882032,
                    blob_data_bytes = 130044, blob_cost = 131072042000\<rparr>"
  using assms
  by (auto simp: ChannelConfig_def Let_def logged_costs_def returned_config_def
      randomByteCalldataGas_def TxGas_def BlobSize_def MaxBlobDataSize_def)

theorem ChannelConfig_scenario_witness:
  "gasPricer example_selector \<noteq> None \<and>
   MaxFrameSize (calldataConfig example_selector) = 120000 \<and>
   TargetNumFrames (blobConfig example_selector) = 1 \<and>
   returned_config (ChannelConfig (Inr (1, 1, 1)) example_selector)
     = Some example_blobConfig \<and>
   returned_config (ChannelConfig (Inr (1, 1, 1000000)) example_selector)
     = Some example_calldataConfig"
  using ChannelConfig_scenario [of example_selector]
  by (simp add: NewDynamicEthChannelConfig_def example_selector_def constructed_selector_def
      example_blobConfig_def example_calldataConfig_def)

section \<open>The reader\<close>

lemma init_reader_frame:
  "init_reader d cr = (rd, cr1) \<Longrightarrow>
     rd = BytesReader d 0 \<and> cr1 = cr\<lparr>r := Some (BytesReader d 0)\<rparr>"
  by (auto simp: init_reader_def Let_def bytes_NewReader_def bytes_Reset_def
      split: option.splits)

lemma init_zlib_frame:
  "init_zlib K rd cr = (failed, cr2) \<Longrightarrow>
     l1Origin cr2 = l1Origin cr \<and> originComplete cr2 = originComplete cr \<and>
     data cr2 = data cr \<and> ready cr2 = ready cr \<and> readRLP cr2 = readRLP cr"
  unfolding init_zlib_def
  by (cases "readZlib cr"; cases "zlib_NewReader K rd"; cases "fst (zlib_NewReader K rd)")
     (auto split: prod.splits)

lemma init_rlp_frame:
  "l1Origin (init_rlp K cr) = l1Origin cr" "originComplete (init_rlp K cr) = originComplete cr"
  "data (init_rlp K cr) = data cr" "ready (init_rlp K cr) = ready cr"
  by (simp_all add: init_rlp_def split: option.splits)

lemma ReadBatch_init_cases:
  obtains (empty) "data cr = None" "ReadBatch_init K cr = (Some EOF, cr)"
  | (failed) d err cr2 where "data cr = Some d"
      "init_zlib K (BytesReader d 0) (cr\<lparr>r := Some (BytesReader d 0)\<rparr>) = (Some err, cr2)"
      "ReadBatch_init K cr = (Some err, cr2)"
  | (ok) d cr2 where "data cr = Some d"
      "init_zlib K (BytesReader d 0) (cr\<lparr>r := Some (BytesReader d 0)\<rparr>) = (None, cr2)"
      "ReadBatch_init K cr = (None, (init_rlp K cr2)\<lparr>ready := True\<rparr>)"
proof (cases "data cr")
  case None
  then show ?thesis using empty by (simp add: ReadBatch_init_def)
next
  case (Some d)
  obtain rd cr1 where ir: "init_reader d cr = (rd, cr1)"
    by (cases "init_reader d cr")
  then have eq: "rd = BytesReader d 0" "cr1 = cr\<lparr>r := Some (BytesReader d 0)\<rparr>"
    using init_reader_frame by blast+
  obtain f cr2 where iz: "init_zlib K rd cr1 = (f, cr2)"
    by (cases "init_zlib K rd cr1")
  show ?thesis
  proof (cases f)
    case None
    with Some ir iz eq show ?thesis using ok [of d cr2] by (simp add: ReadBatch_init_def)
  next
    case (Some err)
    with \<open>data cr = Some d\<close> ir iz eq show ?thesis
      using failed [of d err cr2] by (simp add: ReadBatch_init_def)
  qed
qed

lemma ReadBatch_init_frame:
  "l1Origin (snd (ReadBatch_init K cr)) = l1Origin cr \<and>
   originComplete (snd (ReadBatch_init K cr)) = originComplete cr \<and>
   data (snd (ReadBatch_init K cr)) = data cr"
proof (cases rule: ReadBatch_init_cases [where cr = cr and K = K])
  case empty
  then show ?thesis by simp
next
  case (failed d err cr2)
  from init_zlib_frame [OF failed(2)] failed(3) show ?thesis by simp
next
  case (ok d cr2)
  from init_zlib_frame [OF ok(2)] ok(3) show ?thesis by (simp add: init_rlp_frame)
qed

lemma ReadBatch_decode_frame:
  "l1Origin (snd (ReadBatch_decode K cr)) = l1Origin cr"
  "originComplete (snd (ReadBatch_decode K cr)) = originComplete cr"
  "data (snd (ReadBatch_decode K cr)) = data cr"
  "ready (snd (ReadBatch_decode K cr)) = ready cr"
  by (auto simp: ReadBatch_decode_def split: option.splits prod.splits)

lemma ReadBatch_frame:
  "l1Origin (snd (ReadBatch K cr)) = l1Origin cr"
  "originComplete (snd (ReadBatch K cr)) = originComplete cr"
  "data (snd (ReadBatch K cr)) = data cr"
proof -
  obtain failed cr' where i: "ReadBatch_init K cr = (failed, cr')"
    by (cases "ReadBatch_init K cr")
  have f: "l1Origin cr' = l1Origin cr" "originComplete cr' = originComplete cr"
    "data cr' = data cr"
    using ReadBatch_init_frame [of K cr] i by simp_all
  show "l1Origin (snd (ReadBatch K cr)) = l1Origin cr"
    by (cases failed) (simp_all add: ReadBatch_def i f ReadBatch_decode_frame)
  show "originComplete (snd (ReadBatch K cr)) = originComplete cr"
    by (cases failed) (simp_all add: ReadBatch_def i f ReadBatch_decode_frame)
  show "data (snd (ReadBatch K cr)) = data cr"
    by (cases failed) (simp_all add: ReadBatch_def i f ReadBatch_decode_frame)
qed



lemma call_origin:
  "channel_call c \<Longrightarrow> l1Origin (call K c cr) = l1Origin cr"
  by (cases c) (simp_all add: WriteChannel_def NextChannel_def ReadBatch_frame)

lemma calls_origin:
  "\<forall>c \<in> set cs. channel_call c \<Longrightarrow> l1Origin (calls K cs cr) = l1Origin cr"
  by (induction cs arbitrary: cr) (simp_all add: call_origin)

lemma call_originComplete:
  "c \<noteq> CallEndOrigin \<Longrightarrow> \<not> originComplete cr \<Longrightarrow> \<not> originComplete (call K c cr)"
  by (cases c) (simp_all add: AddOrigin_def WriteChannel_def NextChannel_def Reset_def
      ReadBatch_frame)

lemma calls_originComplete:
  "CallEndOrigin \<notin> set cs \<Longrightarrow> \<not> originComplete cr \<Longrightarrow> \<not> originComplete (calls K cs cr)"
proof (induction cs arbitrary: cr)
  case Nil
  then show ?case by simp
next
  case (Cons c cs)
  from Cons.prems have "c \<noteq> CallEndOrigin" and "CallEndOrigin \<notin> set cs" by auto
  with Cons.prems(2) Cons.IH [of "call K c cr"] show ?case
    by (simp add: call_originComplete)
qed

lemma init_zlib_failure:
  assumes "(readZlib cr = None \<and> fst (zlib_NewReader K rd) = Inl err) \<or>
           (\<exists>z. readZlib cr = Some z \<and> fst (zlib_Reset K z rd) = Some err)"
  shows "fst (init_zlib K rd cr) = Some err"
  using assms unfolding init_zlib_def
  by (auto split: option.splits sum.splits prod.splits)

text \<open>
  Every reader that the calls make from a new one is wired, and a wired reader that is ready
  answers \<open>ReadBatch\<close> with the next \<open>Decode\<close> of its stream: the nil branch of
  \<open>ReadBatch_decode\<close> is not reached.
\<close>

lemma wired_New: "wired NewChannelInReader"
  by (simp add: wired_def NewChannelInReader_def)

lemma wired_ReadBatch_decode: "wired cr \<Longrightarrow> wired (snd (ReadBatch_decode K cr))"
  by (auto simp: wired_def ReadBatch_decode_def split: option.splits prod.splits)

lemma wired_init_zlib:
  "wired cr \<Longrightarrow> \<not> ready cr \<Longrightarrow> init_zlib K rd cr = (failed, cr2) \<Longrightarrow>
     wired cr2 \<and> (failed = None \<longrightarrow> readZlib cr2 \<noteq> None \<and> r cr2 \<noteq> None)"
  unfolding init_zlib_def wired_def
  by (auto split: option.splits sum.splits prod.splits)

lemma wired_ReadBatch_init:
  assumes "wired cr" and "\<not> ready cr"
  shows "wired (snd (ReadBatch_init K cr))"
proof (cases rule: ReadBatch_init_cases [where cr = cr and K = K])
  case empty
  with assms show ?thesis by simp
next
  case (failed d err cr2)
  from assms have "wired (cr\<lparr>r := Some (BytesReader d 0)\<rparr>)"
    by (auto simp: wired_def split: option.splits)
  with failed assms(2) show ?thesis
    using wired_init_zlib [of "cr\<lparr>r := Some (BytesReader d 0)\<rparr>" K "BytesReader d 0" "Some err" cr2]
    by simp
next
  case (ok d cr2)
  from assms have "wired (cr\<lparr>r := Some (BytesReader d 0)\<rparr>)"
    by (auto simp: wired_def split: option.splits)
  with ok assms(2) have "readZlib cr2 \<noteq> None \<and> r cr2 \<noteq> None"
    using wired_init_zlib [of "cr\<lparr>r := Some (BytesReader d 0)\<rparr>" K "BytesReader d 0" None cr2]
    by simp
  with ok show ?thesis
    by (auto simp: wired_def init_rlp_def split: option.splits)
qed

lemma wired_ReadBatch: "wired cr \<Longrightarrow> wired (snd (ReadBatch K cr))"
proof -
  assume w: "wired cr"
  show ?thesis
  proof (cases "ready cr")
    case True
    with w show ?thesis by (simp add: ReadBatch_def wired_ReadBatch_decode)
  next
    case False
    obtain failed cr' where i: "ReadBatch_init K cr = (failed, cr')"
      by (cases "ReadBatch_init K cr")
    with w False have "wired cr'"
      using wired_ReadBatch_init [of cr K] by simp
    with False i show ?thesis
      by (cases failed) (simp_all add: ReadBatch_def wired_ReadBatch_decode)
  qed
qed

lemma wired_call: "wired cr \<Longrightarrow> wired (call K c cr)"
proof (cases c)
  case CallReadBatch
  assume "wired cr"
  with CallReadBatch show ?thesis by (simp add: wired_ReadBatch)
qed (auto simp: wired_def AddOrigin_def EndOrigin_def WriteChannel_def NextChannel_def
      Reset_def split: option.splits)

lemma wired_calls: "wired cr \<Longrightarrow> wired (calls K cs cr)"
  by (induction cs arbitrary: cr) (simp_all add: wired_call)

lemma wired_no_panic:
  assumes "wired cr" and "ready cr"
  shows "\<exists>s z rd. readRLP cr = Some s \<and> readZlib cr = Some z \<and> r cr = Some rd \<and>
           fst (ReadBatch K cr) = fst (rlp_Decode K s z rd)"
  using assms
  by (auto simp: wired_def ReadBatch_def ReadBatch_decode_def split: option.splits prod.splits)






text \<open>
  C5. A reader that is not ready and has channel bytes \<open>d\<close>: when creating the zlib reader
  over \<open>d\<close> (no zlib reader yet) or resetting it to \<open>d\<close> fails with \<open>err\<close>, \<open>ReadBatch\<close>
  returns \<open>err\<close>, and afterwards the reader is still not ready and still holds \<open>d\<close>.
\<close>

theorem ReadBatch_init_failure:
  assumes "\<not> ready cr" and "data cr = Some d"
      and "(readZlib cr = None \<and> fst (zlib_NewReader K (BytesReader d 0)) = Inl err) \<or>
           (\<exists>z. readZlib cr = Some z \<and> fst (zlib_Reset K z (BytesReader d 0)) = Some err)"
  shows "fst (ReadBatch K cr) = Inl err \<and>
         \<not> ready (snd (ReadBatch K cr)) \<and>
         data (snd (ReadBatch K cr)) = Some d"
proof -
  have "fst (init_zlib K (BytesReader d 0) (cr\<lparr>r := Some (BytesReader d 0)\<rparr>)) = Some err"
    using assms(3) by (intro init_zlib_failure) simp
  then obtain cr2 where
    iz: "init_zlib K (BytesReader d 0) (cr\<lparr>r := Some (BytesReader d 0)\<rparr>) = (Some err, cr2)"
    by (cases "init_zlib K (BytesReader d 0) (cr\<lparr>r := Some (BytesReader d 0)\<rparr>)") simp
  have "ReadBatch_init K cr = (Some err, cr2)"
    by (cases rule: ReadBatch_init_cases [where cr = cr and K = K]) (use assms(2) iz in simp_all)
  with assms(1) have res: "ReadBatch K cr = (Inl err, cr2)"
    by (simp add: ReadBatch_def)
  from init_zlib_frame [OF iz] assms show ?thesis
    by (simp add: res)
qed

theorem ReadBatch_init_failure_witness:
  "\<not> ready (WriteChannel (Some [0x79, 0, 7]) fresh_reader) \<and>
   data (WriteChannel (Some [0x79, 0, 7]) fresh_reader) = Some [0x79, 0, 7] \<and>
   readZlib (WriteChannel (Some [0x79, 0, 7]) fresh_reader) = None \<and>
   fst (zlib_NewReader byte_codec (BytesReader [0x79, 0, 7] 0))
     = Inl (LibraryError ''zlib: invalid header'') \<and>
   fst (ReadBatch byte_codec (WriteChannel (Some [0x79, 0, 7]) fresh_reader))
     = Inl (LibraryError ''zlib: invalid header'') \<and>
   \<not> ready (snd (ReadBatch byte_codec (WriteChannel (Some [0x79, 0, 7]) fresh_reader))) \<and>
   data (snd (ReadBatch byte_codec (WriteChannel (Some [0x79, 0, 7]) fresh_reader)))
     = Some [0x79, 0, 7]"
  using ReadBatch_init_failure [of "WriteChannel (Some [0x79, 0, 7]) fresh_reader"
      "[0x79, 0, 7]" byte_codec "LibraryError ''zlib: invalid header''"]
  by (simp add: reader_defs)

text \<open>
  C6. \<open>AddOrigin\<close> fails exactly when the parent hash of the new origin is not the hash of
  the current origin. A failing call returns the mismatch error and leaves the reader as it
  was; after a successful call the current origin is the new origin.
\<close>

theorem AddOrigin_checks_parent:
  "(fst (AddOrigin origin cr) \<noteq> None \<longleftrightarrow> ParentHash origin \<noteq> Hash (CurrentL1Origin cr)) \<and>
   (fst (AddOrigin origin cr) \<noteq> None \<longrightarrow>
      fst (AddOrigin origin cr) = Some (OriginMismatch origin (CurrentL1Origin cr)) \<and>
      snd (AddOrigin origin cr) = cr) \<and>
   (fst (AddOrigin origin cr) = None \<longrightarrow> CurrentL1Origin (snd (AddOrigin origin cr)) = origin)"
  by (auto simp: AddOrigin_def CurrentL1Origin_def)

theorem AddOrigin_checks_parent_witness:
  "fst (AddOrigin origin_1 fresh_reader) = None \<and>
   CurrentL1Origin (snd (AddOrigin origin_1 fresh_reader)) = origin_1 \<and>
   fst (AddOrigin origin_3 fresh_reader)
     = Some (OriginMismatch origin_3 (CurrentL1Origin fresh_reader)) \<and>
   snd (AddOrigin origin_3 fresh_reader) = fresh_reader"
  using AddOrigin_checks_parent [of origin_1 fresh_reader]
    AddOrigin_checks_parent [of origin_3 fresh_reader]
  by (simp add: reader_defs)

text \<open>
  C7. A sequence of \<open>WriteChannel\<close>, \<open>ReadBatch\<close> and \<open>NextChannel\<close> calls, of any length
  and on any reader, leaves the current origin as it was. A single call that changes the
  current origin is a \<open>Reset\<close> or an \<open>AddOrigin\<close> that succeeds.
\<close>

theorem channel_calls_keep_origin:
  "((\<forall>c \<in> set cs. channel_call c) \<longrightarrow>
      CurrentL1Origin (calls K cs cr) = CurrentL1Origin cr) \<and>
   (CurrentL1Origin (call K c cr) \<noteq> CurrentL1Origin cr \<longrightarrow>
      (\<exists>origin. c = CallReset origin \<or>
         (c = CallAddOrigin origin \<and> fst (AddOrigin origin cr) = None)))"
proof -
  have "CurrentL1Origin (call K c cr) = CurrentL1Origin cr"
    if "\<not> (\<exists>origin. c = CallReset origin \<or>
         (c = CallAddOrigin origin \<and> fst (AddOrigin origin cr) = None))"
    using that
    by (cases c) (auto simp: CurrentL1Origin_def AddOrigin_def EndOrigin_def WriteChannel_def
        NextChannel_def ReadBatch_frame split: if_splits)
  then show ?thesis
    unfolding CurrentL1Origin_def using calls_origin [of cs K cr] by blast
qed

theorem channel_calls_keep_origin_witness:
  "list_all channel_call
     [CallWriteChannel (Some example_channel), CallReadBatch, CallReadBatch,
      CallReadBatch, CallNextChannel, CallReadBatch] \<and>
   CurrentL1Origin
     (calls byte_codec
        [CallWriteChannel (Some example_channel), CallReadBatch, CallReadBatch,
         CallReadBatch, CallNextChannel, CallReadBatch]
        (snd (AddOrigin origin_1 fresh_reader))) = origin_1 \<and>
   CurrentL1Origin (call byte_codec (CallReset origin_3) (snd (AddOrigin origin_1 fresh_reader)))
     \<noteq> CurrentL1Origin (snd (AddOrigin origin_1 fresh_reader))"
  using channel_calls_keep_origin
    [of "[CallWriteChannel (Some example_channel), CallReadBatch, CallReadBatch,
          CallReadBatch, CallNextChannel, CallReadBatch]"
        byte_codec "snd (AddOrigin origin_1 fresh_reader)" "CallReset origin_3"]
  by (simp add: AddOrigin_def Reset_def CurrentL1Origin_def fresh_reader_def
      NewChannelInReader_def origin_1_def origin_3_def)

text \<open>
  C8. \<open>ReadBatch\<close> on a reader that is not ready and has no channel bytes returns \<open>EOF\<close>
  and leaves the reader as it was.
\<close>

theorem ReadBatch_empty:
  "\<not> ready cr \<Longrightarrow> data cr = None \<Longrightarrow> ReadBatch K cr = (Inl EOF, cr)"
  by (simp add: ReadBatch_def ReadBatch_init_def)

theorem ReadBatch_empty_witness:
  "\<not> ready fresh_reader \<and> data fresh_reader = None \<and>
   ReadBatch byte_codec fresh_reader = (Inl EOF, fresh_reader)"
  using ReadBatch_empty [of fresh_reader byte_codec]
  by (simp add: fresh_reader_def NewChannelInReader_def)

text \<open>
  C10. After an \<open>AddOrigin\<close> that succeeds, \<open>OriginDone\<close> is false, and stays false over
  every sequence of calls without an \<open>EndOrigin\<close>; \<open>EndOrigin\<close> makes it true. An
  \<open>AddOrigin\<close> that fails leaves \<open>OriginDone\<close> as it was.
\<close>

theorem AddOrigin_clears_originComplete:
  "(fst (AddOrigin origin cr) = None \<longrightarrow>
      \<not> OriginDone (snd (AddOrigin origin cr)) \<and>
      (\<forall>cs. CallEndOrigin \<notin> set cs \<longrightarrow>
         \<not> OriginDone (calls K cs (snd (AddOrigin origin cr)))) \<and>
      OriginDone (EndOrigin (snd (AddOrigin origin cr)))) \<and>
   (fst (AddOrigin origin cr) \<noteq> None \<longrightarrow>
      OriginDone (snd (AddOrigin origin cr)) = OriginDone cr)"
proof -
  have clear: "\<not> originComplete (snd (AddOrigin origin cr))"
    if "fst (AddOrigin origin cr) = None"
    using that by (simp add: AddOrigin_def split: if_splits)
  show ?thesis
    unfolding OriginDone_def
    using clear calls_originComplete [of _ "snd (AddOrigin origin cr)" K]
    by (auto simp: EndOrigin_def AddOrigin_def)
qed

theorem AddOrigin_clears_originComplete_witness:
  "OriginDone (EndOrigin fresh_reader) \<and>
   fst (AddOrigin origin_1 (EndOrigin fresh_reader)) = None \<and>
   \<not> OriginDone (snd (AddOrigin origin_1 (EndOrigin fresh_reader))) \<and>
   CallEndOrigin \<notin> set [CallWriteChannel (Some example_channel), CallReadBatch,
                          CallReset origin_3, CallNextChannel] \<and>
   \<not> OriginDone
       (calls byte_codec
          [CallWriteChannel (Some example_channel), CallReadBatch, CallReset origin_3,
           CallNextChannel]
          (snd (AddOrigin origin_1 (EndOrigin fresh_reader)))) \<and>
   fst (AddOrigin origin_3 (EndOrigin fresh_reader)) \<noteq> None \<and>
   OriginDone (snd (AddOrigin origin_3 (EndOrigin fresh_reader)))"
proof -
  let ?cs = "[CallWriteChannel (Some example_channel), CallReadBatch, CallReset origin_3,
              CallNextChannel]"
  have ok: "fst (AddOrigin origin_1 (EndOrigin fresh_reader)) = None"
    by (simp add: reader_defs)
  have bad: "fst (AddOrigin origin_3 (EndOrigin fresh_reader)) \<noteq> None"
    by (simp add: reader_defs)
  have was_done: "OriginDone (EndOrigin fresh_reader)"
    by (simp add: reader_defs)
  have no_end: "CallEndOrigin \<notin> set ?cs"
    by simp
  from AddOrigin_clears_originComplete [of origin_1 "EndOrigin fresh_reader" byte_codec] ok
  have cleared: "\<not> OriginDone (snd (AddOrigin origin_1 (EndOrigin fresh_reader)))"
    and stays: "\<forall>cs. CallEndOrigin \<notin> set cs \<longrightarrow>
      \<not> OriginDone (calls byte_codec cs (snd (AddOrigin origin_1 (EndOrigin fresh_reader))))"
    by blast+
  from stays no_end
  have later: "\<not> OriginDone (calls byte_codec ?cs
                  (snd (AddOrigin origin_1 (EndOrigin fresh_reader))))"
    by blast
  from AddOrigin_clears_originComplete [of origin_3 "EndOrigin fresh_reader" byte_codec]
    bad was_done
  have kept: "OriginDone (snd (AddOrigin origin_3 (EndOrigin fresh_reader)))"
    by blast
  from was_done ok cleared no_end later bad kept show ?thesis
    by blast
qed

end
